theory Spec2Isabelle
  imports Complex_Main
begin

section \<open>JavaScript numbers\<close>

text \<open>
  The calculator of \<^verbatim>\<open>src/lib/mortgage-calculator.ts\<close> computes on JavaScript numbers.
  They are modelled as the reals extended by the two infinities and NaN. A finite value is
  an exact real: rounding, overflow to an infinity, underflow and the sign of zero are not
  modelled. Division by zero, the arithmetic of the infinities, the comparisons with NaN,
  truthiness, \<^verbatim>\<open>Math.max\<close> and \<^verbatim>\<open>Math.pow\<close> follow ECMAScript.
\<close>

datatype jsnum = Fin real | PInf | NInf | NaN


fun js_neg :: "jsnum \<Rightarrow> jsnum" where
  "js_neg (Fin x) = Fin (- x)"
| "js_neg PInf = NInf"
| "js_neg NInf = PInf"
| "js_neg NaN = NaN"

fun js_add :: "jsnum \<Rightarrow> jsnum \<Rightarrow> jsnum" where
  "js_add NaN b = NaN"
| "js_add a NaN = NaN"
| "js_add (Fin x) (Fin y) = Fin (x + y)"
| "js_add (Fin x) b = b"
| "js_add a (Fin y) = a"
| "js_add PInf PInf = PInf"
| "js_add NInf NInf = NInf"
| "js_add PInf NInf = NaN"
| "js_add NInf PInf = NaN"

definition js_sub :: "jsnum \<Rightarrow> jsnum \<Rightarrow> jsnum" where
  "js_sub a b = js_add a (js_neg b)"

fun js_mul :: "jsnum \<Rightarrow> jsnum \<Rightarrow> jsnum" where
  "js_mul NaN b = NaN"
| "js_mul a NaN = NaN"
| "js_mul (Fin x) (Fin y) = Fin (x * y)"
| "js_mul (Fin x) b = (if x = 0 then NaN else if 0 < x then b else js_neg b)"
| "js_mul a (Fin y) = (if y = 0 then NaN else if 0 < y then a else js_neg a)"
| "js_mul a b = (if a = b then PInf else NInf)"

fun js_div :: "jsnum \<Rightarrow> jsnum \<Rightarrow> jsnum" where
  "js_div NaN b = NaN"
| "js_div a NaN = NaN"
| "js_div (Fin x) (Fin y) =
     (if y \<noteq> 0 then Fin (x / y)
      else if 0 < x then PInf else if x < 0 then NInf else NaN)"
| "js_div (Fin x) b = Fin 0"
| "js_div a (Fin y) = (if 0 \<le> y then a else js_neg a)"
| "js_div a b = NaN"

text \<open>The relational operators: every comparison with NaN is false.\<close>

fun js_le :: "jsnum \<Rightarrow> jsnum \<Rightarrow> bool" where
  "js_le NaN b = False"
| "js_le a NaN = False"
| "js_le (Fin x) (Fin y) = (x \<le> y)"
| "js_le NInf b = True"
| "js_le a PInf = True"
| "js_le a b = False"

fun js_lt :: "jsnum \<Rightarrow> jsnum \<Rightarrow> bool" where
  "js_lt NaN b = False"
| "js_lt a NaN = False"
| "js_lt (Fin x) (Fin y) = (x < y)"
| "js_lt PInf b = False"
| "js_lt a NInf = False"
| "js_lt a b = True"

definition js_ge :: "jsnum \<Rightarrow> jsnum \<Rightarrow> bool" where
  "js_ge a b = js_le b a"

text \<open>Strict equality \<^verbatim>\<open>===\<close> on numbers: NaN is not equal to itself.\<close>

fun js_seq :: "jsnum \<Rightarrow> jsnum \<Rightarrow> bool" where
  "js_seq NaN b = False"
| "js_seq a NaN = False"
| "js_seq a b = (a = b)"

text \<open>Truthiness of a number: zero and NaN are falsy.\<close>

fun truthy :: "jsnum \<Rightarrow> bool" where
  "truthy (Fin x) = (x \<noteq> 0)"
| "truthy NaN = False"
| "truthy a = True"

text \<open>\<^verbatim>\<open>Math.max(a, b)\<close>: NaN when either argument is NaN.\<close>

fun js_max :: "jsnum \<Rightarrow> jsnum \<Rightarrow> jsnum" where
  "js_max NaN b = NaN"
| "js_max a NaN = NaN"
| "js_max a b = (if js_le a b then b else a)"

definition isInteger :: "real \<Rightarrow> bool" where
  "isInteger y = (y = of_int \<lfloor>y\<rfloor>)"

definition isOddInteger :: "real \<Rightarrow> bool" where
  "isOddInteger y = (isInteger y \<and> odd \<lfloor>y\<rfloor>)"

text \<open>
  \<^verbatim>\<open>Math.pow(base, exponent)\<close>, by the cases of the ECMAScript operation
  \<^verbatim>\<open>Number::exponentiate\<close>. A negative base with a fractional exponent gives NaN.
\<close>

definition realPow :: "real \<Rightarrow> real \<Rightarrow> real" where
  "realPow x y = (if 0 < x then x powr y else x powi \<lfloor>y\<rfloor>)"

fun js_pow :: "jsnum \<Rightarrow> jsnum \<Rightarrow> jsnum" where
  "js_pow b NaN = NaN"
| "js_pow NaN e = (if e = Fin 0 then Fin 1 else NaN)"
| "js_pow PInf e = (if e = Fin 0 then Fin 1 else if js_lt (Fin 0) e then PInf else Fin 0)"
| "js_pow NInf (Fin y) =
     (if y = 0 then Fin 1
      else if 0 < y then (if isOddInteger y then NInf else PInf)
      else Fin 0)"
| "js_pow NInf PInf = PInf"
| "js_pow NInf NInf = Fin 0"
| "js_pow (Fin x) PInf =
     (if x = 0 then Fin 0
      else if 1 < \<bar>x\<bar> then PInf else if \<bar>x\<bar> = 1 then NaN else Fin 0)"
| "js_pow (Fin x) NInf =
     (if x = 0 then PInf
      else if 1 < \<bar>x\<bar> then Fin 0 else if \<bar>x\<bar> = 1 then NaN else PInf)"
| "js_pow (Fin x) (Fin y) =
     (if y = 0 then Fin 1
      else if x = 0 then (if 0 < y then Fin 0 else PInf)
      else if x < 0 \<and> \<not> isInteger y then NaN
      else Fin (realPow x y))"

section \<open>The data model\<close>

text \<open>
  The fields of \<^verbatim>\<open>MortgageInputs\<close> are finite numbers (amounts of money, percentages,
  years); an optional field is absent (\<open>None\<close>) or holds a number.
\<close>

record MortgageInputs =
  loanAmount :: real
  interestRate :: real
  loanTermYears :: real
  propertyTaxAnnual :: real
  homeInsuranceAnnual :: real
  pmiRate :: "real option"
  hoaFees :: "real option"
  downPayment :: real
  closingCosts :: "real option"

text \<open>
  \<^verbatim>\<open>MortgageCalculation\<close>. Four of its fields carry the names of input fields; they are
  prefixed with \<open>calc\<close> here.
\<close>

record MortgageCalculation =
  calcLoanAmount :: jsnum
  calcDownPayment :: jsnum
  purchasePrice :: jsnum
  principalAndInterest :: jsnum
  propertyTaxMonthly :: jsnum
  homeInsuranceMonthly :: jsnum
  pmiMonthly :: jsnum
  hoaFeesMonthly :: jsnum
  totalMonthlyPayment :: jsnum
  totalInterest :: jsnum
  totalPayments :: jsnum
  totalPMI :: jsnum
  calcInterestRate :: jsnum
  calcLoanTermYears :: jsnum
  monthlyRate :: jsnum

record AmortizationEntry =
  paymentNumber :: nat
  paymentDate :: string
  beginningBalance :: jsnum
  monthlyPayment :: jsnum
  principalPayment :: jsnum
  interestPayment :: jsnum
  endingBalance :: jsnum
  cumulativeInterest :: jsnum
  cumulativePrincipal :: jsnum

section \<open>The calculation engine\<close>

definition calculateMonthlyPayment :: "jsnum \<Rightarrow> jsnum \<Rightarrow> jsnum \<Rightarrow> jsnum" where
  "calculateMonthlyPayment princ annualRate termYears =
     (let mRate = js_div (js_div annualRate (Fin 100)) (Fin 12);
          numPayments = js_mul termYears (Fin 12)
      in if js_seq mRate (Fin 0) then js_div princ numPayments
         else js_div
                (js_mul princ (js_mul mRate (js_pow (js_add (Fin 1) mRate) numPayments)))
                (js_sub (js_pow (js_add (Fin 1) mRate) numPayments) (Fin 1)))"

definition calculateTotalInterest :: "jsnum \<Rightarrow> jsnum \<Rightarrow> jsnum \<Rightarrow> jsnum" where
  "calculateTotalInterest princ mPayment termYears =
     (let allPayments = js_mul (js_mul mPayment termYears) (Fin 12)
      in js_sub allPayments princ)"

definition calculatePMI :: "jsnum \<Rightarrow> jsnum \<Rightarrow> jsnum \<Rightarrow> jsnum" where
  "calculatePMI loan rate downPaymentPercent =
     (if js_ge downPaymentPercent (Fin 20) then Fin 0
      else js_div (js_div (js_mul loan rate) (Fin 100)) (Fin 12))"

text \<open>
  \<^verbatim>\<open>v || d\<close> on an optional number: \<^verbatim>\<open>undefined\<close> and zero are falsy and give \<open>d\<close>.
\<close>

definition optOr :: "real option \<Rightarrow> jsnum \<Rightarrow> jsnum" where
  "optOr v d = (case v of None \<Rightarrow> d | Some x \<Rightarrow> if truthy (Fin x) then Fin x else d)"

definition calculateMortgage :: "MortgageInputs \<Rightarrow> MortgageCalculation" where
  "calculateMortgage inp =
     (let price = js_add (Fin (loanAmount inp)) (Fin (downPayment inp));
          downPaymentPercent = js_mul (js_div (Fin (downPayment inp)) price) (Fin 100);
          pAndI = calculateMonthlyPayment (Fin (loanAmount inp)) (Fin (interestRate inp))
                    (Fin (loanTermYears inp));
          taxMonthly = js_div (Fin (propertyTaxAnnual inp)) (Fin 12);
          insuranceMonthly = js_div (Fin (homeInsuranceAnnual inp)) (Fin 12);
          pmi = (case pmiRate inp of
                   None \<Rightarrow> Fin 0
                 | Some p \<Rightarrow>
                     if truthy (Fin p)
                     then calculatePMI (Fin (loanAmount inp)) (Fin p) downPaymentPercent
                     else Fin 0);
          hoa = optOr (hoaFees inp) (Fin 0);
          totalMonthly =
            js_add (js_add (js_add (js_add pAndI taxMonthly) insuranceMonthly) pmi) hoa;
          interest = calculateTotalInterest (Fin (loanAmount inp)) pAndI
                       (Fin (loanTermYears inp));
          payments = js_mul (js_mul totalMonthly (Fin (loanTermYears inp))) (Fin 12);
          pmiTotal = js_mul (js_mul pmi (Fin (loanTermYears inp))) (Fin 12)
      in \<lparr> calcLoanAmount = Fin (loanAmount inp),
           calcDownPayment = Fin (downPayment inp),
           purchasePrice = price,
           principalAndInterest = pAndI,
           propertyTaxMonthly = taxMonthly,
           homeInsuranceMonthly = insuranceMonthly,
           pmiMonthly = pmi,
           hoaFeesMonthly = hoa,
           totalMonthlyPayment = totalMonthly,
           totalInterest = interest,
           totalPayments = payments,
           totalPMI = pmiTotal,
           calcInterestRate = Fin (interestRate inp),
           calcLoanTermYears = Fin (loanTermYears inp),
           monthlyRate = js_div (js_div (Fin (interestRate inp)) (Fin 100)) (Fin 12) \<rparr>)"

text \<open>The local \<^verbatim>\<open>downPaymentPercent\<close> of \<^verbatim>\<open>calculateMortgage\<close>, to speak about it.\<close>

definition downPaymentPercentOf :: "MortgageInputs \<Rightarrow> jsnum" where
  "downPaymentPercentOf inp =
     js_mul (js_div (Fin (downPayment inp))
               (js_add (Fin (loanAmount inp)) (Fin (downPayment inp))))
            (Fin 100)"


section \<open>Dates\<close>

text \<open>
  The schedule uses the platform's \<^verbatim>\<open>Date\<close> in two ways: a copy of the start date is moved
  on by \<open>i\<close> months (\<^verbatim>\<open>setMonth(getMonth() + i)\<close>), and a date is printed as the day part of
  its ISO string (\<^verbatim>\<open>toISOString().split("T")[0]\<close>). Both are parameters of the model, so
  that the results hold for every time zone. The date type stands for the valid dates that
  \<^verbatim>\<open>toISOString\<close> can print.
\<close>

record 'd dateOps =
  addMonths :: "'d \<Rightarrow> nat \<Rightarrow> 'd"
  isoDate :: "'d \<Rightarrow> string"

text \<open>
  One instance, used where a concrete date is needed: calendar days of an environment whose
  local time zone is UTC, as year, month (1 to 12) and day. \<^verbatim>\<open>setMonth\<close> keeps the day of
  the month and lets a day beyond the end of the target month run over into the next one.
\<close>

type_synonym calendarDay = "nat \<times> nat \<times> nat"

definition isLeapYear :: "nat \<Rightarrow> bool" where
  "isLeapYear y =
     (if y mod 400 = 0 then True else if y mod 100 = 0 then False else y mod 4 = 0)"

definition daysInMonth :: "nat \<Rightarrow> nat \<Rightarrow> nat" where
  "daysInMonth y m =
     (if m = 2 then (if isLeapYear y then 29 else 28)
      else if m = 4 then 30 else if m = 6 then 30 else if m = 9 then 30
      else if m = 11 then 30 else 31)"

definition utcAddMonths :: "calendarDay \<Rightarrow> nat \<Rightarrow> calendarDay" where
  "utcAddMonths date k =
     (case date of (y, m, d) \<Rightarrow>
        let t = m - 1 + k; y' = y + t div 12; m' = t mod 12 + 1; len = daysInMonth y' m'
        in if d \<le> len then (y', m', d)
           else if m' = 12 then (y' + 1, 1, d - len)
           else (y', m' + 1, d - len))"

definition digitChar :: "nat \<Rightarrow> char" where
  "digitChar n = ''0123456789'' ! n"

fun showNat :: "nat \<Rightarrow> string" where
  "showNat n = (if n < 10 then [digitChar n] else showNat (n div 10) @ [digitChar (n mod 10)])"

declare showNat.simps [simp del]

definition padZero :: "nat \<Rightarrow> string \<Rightarrow> string" where
  "padZero k s = replicate (k - length s) (CHR ''0'') @ s"

definition utcIsoDate :: "calendarDay \<Rightarrow> string" where
  "utcIsoDate date =
     (case date of (y, m, d) \<Rightarrow>
        (if y \<le> 9999 then padZero 4 (showNat y) else ''+'' @ padZero 6 (showNat y))
        @ ''-'' @ padZero 2 (showNat m) @ ''-'' @ padZero 2 (showNat d))"

definition utcDates :: "calendarDay dateOps" where
  "utcDates = \<lparr> addMonths = utcAddMonths, isoDate = utcIsoDate \<rparr>"

section \<open>The amortization table\<close>

text \<open>
  The loop of \<^verbatim>\<open>generateAmortizationTable\<close>, from payment \<open>i\<close> on. The entries are returned
  in the order the code pushes them. The payment count is the product of a finite number
  of years and 12, hence a real.
\<close>

function amortLoop ::
  "'d dateOps \<Rightarrow> 'd \<Rightarrow> jsnum \<Rightarrow> jsnum \<Rightarrow> real \<Rightarrow> nat \<Rightarrow> jsnum \<Rightarrow> jsnum \<Rightarrow> jsnum
     \<Rightarrow> AmortizationEntry list" where
  "amortLoop D startDate mPayment mRate numPayments i balance cumInterest cumPrincipal =
     (if real i \<le> numPayments then
        (let interestPmt = js_mul balance mRate;
             principalPmt = js_sub mPayment interestPmt;
             ending = js_max (Fin 0) (js_sub balance principalPmt);
             cumInterest' = js_add cumInterest interestPmt;
             cumPrincipal' = js_add cumPrincipal principalPmt;
             entry = \<lparr> paymentNumber = i,
                       paymentDate = isoDate D (addMonths D startDate i),
                       beginningBalance = balance,
                       monthlyPayment = mPayment,
                       principalPayment = principalPmt,
                       interestPayment = interestPmt,
                       endingBalance = ending,
                       cumulativeInterest = cumInterest',
                       cumulativePrincipal = cumPrincipal' \<rparr>
         in if js_le ending (Fin 0.01) then [entry]
            else entry # amortLoop D startDate mPayment mRate numPayments (i + 1) ending
                           cumInterest' cumPrincipal')
      else [])"
  by pat_completeness auto
termination
  by (relation "measure (\<lambda>(D, s, mp, r, n, i, b, ci, cp). nat (\<lfloor>n\<rfloor> + 1 - int i))")
     (auto simp: le_floor_iff)

declare amortLoop.simps [simp del]

definition generateAmortizationTable ::
  "'d dateOps \<Rightarrow> MortgageInputs \<Rightarrow> 'd \<Rightarrow> AmortizationEntry list" where
  "generateAmortizationTable D inp startDate =
     (let calculation = calculateMortgage inp;
          mPayment = principalAndInterest calculation;
          mRate = monthlyRate calculation;
          numPayments = loanTermYears inp * 12
      in amortLoop D startDate mPayment mRate numPayments 1 (Fin (loanAmount inp))
           (Fin 0) (Fin 0))"

text \<open>
  The entry that one run of the loop body pushes, as a function of the loop's variables.
  It is used to state how the loop unfolds.
\<close>

definition amortEntry ::
  "'d dateOps \<Rightarrow> 'd \<Rightarrow> jsnum \<Rightarrow> jsnum \<Rightarrow> nat \<Rightarrow> jsnum \<Rightarrow> jsnum \<Rightarrow> jsnum \<Rightarrow> AmortizationEntry" where
  "amortEntry D startDate mPayment mRate i balance cumInterest cumPrincipal =
     \<lparr> paymentNumber = i,
       paymentDate = isoDate D (addMonths D startDate i),
       beginningBalance = balance,
       monthlyPayment = mPayment,
       principalPayment = js_sub mPayment (js_mul balance mRate),
       interestPayment = js_mul balance mRate,
       endingBalance = js_max (Fin 0) (js_sub balance (js_sub mPayment (js_mul balance mRate))),
       cumulativeInterest = js_add cumInterest (js_mul balance mRate),
       cumulativePrincipal = js_add cumPrincipal (js_sub mPayment (js_mul balance mRate)) \<rparr>"

subsection \<open>Point-in-time lookups\<close>

definition calculatePrincipalPaidByDate ::
  "'d dateOps \<Rightarrow> MortgageInputs \<Rightarrow> 'd \<Rightarrow> 'd \<Rightarrow> jsnum" where
  "calculatePrincipalPaidByDate D inp targetDate startDate =
     (let amortizationTable = generateAmortizationTable D inp startDate;
          targetDateStr = isoDate D targetDate
      in case find (\<lambda>entry. paymentDate entry = targetDateStr) amortizationTable of
           Some entry \<Rightarrow> cumulativePrincipal entry
         | None \<Rightarrow> Fin 0)"

definition calculateRemainingBalance ::
  "'d dateOps \<Rightarrow> MortgageInputs \<Rightarrow> 'd \<Rightarrow> 'd \<Rightarrow> jsnum" where
  "calculateRemainingBalance D inp targetDate startDate =
     (let amortizationTable = generateAmortizationTable D inp startDate;
          targetDateStr = isoDate D targetDate
      in case find (\<lambda>entry. paymentDate entry = targetDateStr) amortizationTable of
           Some entry \<Rightarrow> endingBalance entry
         | None \<Rightarrow> Fin (loanAmount inp))"

definition calculateInterestPaidByDate ::
  "'d dateOps \<Rightarrow> MortgageInputs \<Rightarrow> 'd \<Rightarrow> 'd \<Rightarrow> jsnum" where
  "calculateInterestPaidByDate D inp targetDate startDate =
     (let amortizationTable = generateAmortizationTable D inp startDate;
          targetDateStr = isoDate D targetDate
      in case find (\<lambda>entry. paymentDate entry = targetDateStr) amortizationTable of
           Some entry \<Rightarrow> cumulativeInterest entry
         | None \<Rightarrow> Fin 0)"

section \<open>Validation\<close>

text \<open>One \<^verbatim>\<open>if (c) errors.push(msg)\<close> of \<^verbatim>\<open>validateInputs\<close>.\<close>

definition pushIf :: "bool \<Rightarrow> string \<Rightarrow> string list" where
  "pushIf c msg = (if c then [msg] else [])"

text \<open>\<^verbatim>\<open>v && v < 0\<close> and \<^verbatim>\<open>v && (v < 0 || v > 10)\<close> on an optional number.\<close>

definition optNegative :: "real option \<Rightarrow> bool" where
  "optNegative v = (case v of None \<Rightarrow> False | Some x \<Rightarrow> truthy (Fin x) \<and> x < 0)"

definition optOutside :: "real option \<Rightarrow> real \<Rightarrow> real \<Rightarrow> bool" where
  "optOutside v lo hi =
     (case v of None \<Rightarrow> False | Some x \<Rightarrow> truthy (Fin x) \<and> (x < lo \<or> x > hi))"

definition validateInputs :: "MortgageInputs \<Rightarrow> string list" where
  "validateInputs inp =
     pushIf (interestRate inp < 0 \<or> interestRate inp > 50)
       ''Interest rate must be between 0% and 50%''
     @ pushIf (loanTermYears inp \<le> 0 \<or> loanTermYears inp > 50)
       ''Loan term must be between 1 and 50 years''
     @ pushIf (downPayment inp < 0) ''Down payment cannot be negative''
     @ pushIf (downPayment inp > loanAmount inp + downPayment inp)
       ''Down payment cannot be greater than purchase price''
     @ pushIf (propertyTaxAnnual inp < 0) ''Property tax cannot be negative''
     @ pushIf (homeInsuranceAnnual inp < 0) ''Home insurance cannot be negative''
     @ pushIf (optOutside (pmiRate inp) 0 10) ''PMI rate must be between 0% and 10%''
     @ pushIf (optNegative (hoaFees inp)) ''HOA fees cannot be negative''
     @ pushIf (optNegative (closingCosts inp)) ''Closing costs cannot be negative''"

section \<open>Saved scenarios\<close>

text \<open>
  \<^verbatim>\<open>LocalStorageService\<close> keeps the list of saved scenarios under one key of the browser's
  local storage. The item is absent or holds the list; the JSON text is identified with
  the list it encodes, which is exact for scenarios whose numbers are finite. The two
  readings of the clock in \<^verbatim>\<open>saveScenario\<close> (the ISO string of the current time and
  \<^verbatim>\<open>Date.now()\<close> in milliseconds) are parameters, and every operation returns the new
  content of the item next to its result.
\<close>

record SavedScenario =
  scenarioId :: string
  name :: string
  inputs :: MortgageInputs
  calculation :: MortgageCalculation
  amortization :: "AmortizationEntry list"
  createdAt :: string
  updatedAt :: string







section \<open>Example inputs\<close>

text \<open>
  A loan of 1200 over one year at no interest, with a down payment of 20 percent; and a start
  date. They serve as concrete inputs below.
\<close>

definition sampleInputs :: MortgageInputs where
  "sampleInputs =
     \<lparr> loanAmount = 1200, interestRate = 0, loanTermYears = 1,
       propertyTaxAnnual = 1200, homeInsuranceAnnual = 600, pmiRate = Some 0.5,
       hoaFees = Some 100, downPayment = 300, closingCosts = Some 500 \<rparr>"

definition sampleStart :: calendarDay where
  "sampleStart = (2024, 1, 15)"

section \<open>Properties of the arithmetic\<close>


section \<open>The monthly payment\<close>


section \<open>How the loop unfolds\<close>


lemma amortLoop_rec:
  "amortLoop D s mp r n i b ci cp =
     (if real i \<le> n then
        (if js_le (endingBalance (amortEntry D s mp r i b ci cp)) (Fin 0.01)
         then [amortEntry D s mp r i b ci cp]
         else amortEntry D s mp r i b ci cp #
              amortLoop D s mp r n (Suc i) (endingBalance (amortEntry D s mp r i b ci cp))
                (cumulativeInterest (amortEntry D s mp r i b ci cp))
                (cumulativePrincipal (amortEntry D s mp r i b ci cp)))
      else [])"
  by (subst amortLoop.simps) (simp add: Let_def amortEntry_def)










text \<open>The definitions to unfold when a table is computed at a concrete input.\<close>

lemmas eval_table = generateAmortizationTable_def calculateMortgage_def
  calculateMonthlyPayment_def Let_def js_sub_def amortLoop_rec amortEntry_def realPow_def
  isInteger_def

section \<open>The amortization table: entries\<close>




section \<open>The amortization table: length\<close>




section \<open>A loan amount of zero\<close>




text \<open>
  With no loan and no down payment the purchase price is 0 and the down-payment percentage
  is \<open>0 / 0\<close>. It is the third argument of \<open>calculatePMI\<close>, compares as not at least 20,
  and the PMI is computed from the loan amount of 0.
\<close>

lemma downPaymentPercent_zero_price:
  "loanAmount inp = 0 \<Longrightarrow> downPayment inp = 0 \<Longrightarrow> downPaymentPercentOf inp = NaN"
  by (simp add: downPaymentPercentOf_def)

lemma pmiMonthly_uses_percent:
  "pmiRate inp = Some p \<Longrightarrow> p \<noteq> 0 \<Longrightarrow>
     pmiMonthly (calculateMortgage inp) =
       calculatePMI (Fin (loanAmount inp)) (Fin p) (downPaymentPercentOf inp)"
  by (simp add: calculateMortgage_def Let_def downPaymentPercentOf_def)







section \<open>Mortgage insurance\<close>






section \<open>Total interest\<close>


text \<open>
  The two differ where the table stops early. A loan of 0.005 at 12 percent over one year is
  below 0.01 after its first payment: the interest column sums to 0.00005, the interest of
  that one month, and the nominal total is another number.
\<close>

lemma totalInterest_not_column_sum:
  "map cumulativeInterest (generateAmortizationTable utcDates
      (sampleInputs \<lparr> loanAmount := 0.005, interestRate := 12 \<rparr>) sampleStart) = [Fin 0.00005] \<and>
   totalInterest (calculateMortgage (sampleInputs \<lparr> loanAmount := 0.005, interestRate := 12 \<rparr>))
     \<noteq> Fin 0.00005"
  by (simp add: sampleInputs_def eval_table calculateTotalInterest_def power_divide)

section \<open>Validation: what is reported\<close>

lemma validateInputs_loan_term:
  "''Loan term must be between 1 and 50 years'' \<in> set (validateInputs inp) \<longleftrightarrow>
     loanTermYears inp \<le> 0 \<or> 50 < loanTermYears inp"
  by (simp add: validateInputs_def pushIf_def)

lemma validateInputs_interest_rate:
  "''Interest rate must be between 0% and 50%'' \<in> set (validateInputs inp) \<longleftrightarrow>
     interestRate inp < 0 \<or> 50 < interestRate inp"
  by (simp add: validateInputs_def pushIf_def)

lemma validateInputs_pmi_rate:
  "''PMI rate must be between 0% and 10%'' \<in> set (validateInputs inp) \<longleftrightarrow>
     (\<exists>p. pmiRate inp = Some p \<and> (p < 0 \<or> 10 < p))"
  by (auto simp: validateInputs_def pushIf_def optOutside_def split: option.splits)

text \<open>
  C6. \<open>validateInputs\<close> is to report the loan-term error exactly when \<open>loanTermYears\<close> is
  outside the interval from 1 to 50, as its message says. The check is
  \<open>loanTermYears \<le> 0 \<or> loanTermYears > 50\<close>: a term of half a year, below 1, passes with no
  error at all.
\<close>

theorem validateInputs_half_year:
  "validateInputs (sampleInputs \<lparr> loanTermYears := 0.5 \<rparr>) = []"
  by (simp add: validateInputs_def pushIf_def sampleInputs_def optOutside_def optNegative_def)

section \<open>Lookups by date\<close>

lemma find_first_index:
  assumes "k < length xs" and "P (xs ! k)" and "\<forall>j<k. \<not> P (xs ! j)"
  shows "find P xs = Some (xs ! k)"
  using assms by (auto simp: find_Some_iff)

lemma find_no_match: "\<forall>x\<in>set xs. \<not> P x \<Longrightarrow> find P xs = None"
  by (simp add: find_None_iff)

text \<open>
  C8. For every \<open>MortgageInputs\<close>, target date and start date: if an entry of the
  generated table carries the ISO day of the target date as its payment date, then
  \<open>calculatePrincipalPaidByDate\<close>, \<open>calculateInterestPaidByDate\<close> and
  \<open>calculateRemainingBalance\<close> return the cumulative principal, the cumulative interest and
  the ending balance of the first such entry; if no entry does, they return 0, 0 and the
  loan amount.
\<close>

theorem lookups_by_date:
  assumes "t = generateAmortizationTable D inp s" and "d = isoDate D target"
  shows "(\<forall>k. k < length t \<and> paymentDate (t ! k) = d \<and> (\<forall>j<k. paymentDate (t ! j) \<noteq> d) \<longrightarrow>
            calculatePrincipalPaidByDate D inp target s = cumulativePrincipal (t ! k) \<and>
            calculateInterestPaidByDate D inp target s = cumulativeInterest (t ! k) \<and>
            calculateRemainingBalance D inp target s = endingBalance (t ! k)) \<and>
         ((\<forall>e\<in>set t. paymentDate e \<noteq> d) \<longrightarrow>
            calculatePrincipalPaidByDate D inp target s = Fin 0 \<and>
            calculateInterestPaidByDate D inp target s = Fin 0 \<and>
            calculateRemainingBalance D inp target s = Fin (loanAmount inp))"
proof (intro conjI allI impI)
  fix k
  assume "k < length t \<and> paymentDate (t ! k) = d \<and> (\<forall>j<k. paymentDate (t ! j) \<noteq> d)"
  then have found: "find (\<lambda>entry. paymentDate entry = d) t = Some (t ! k)"
    by (intro find_first_index) auto
  from found show "calculatePrincipalPaidByDate D inp target s = cumulativePrincipal (t ! k)"
    by (simp add: calculatePrincipalPaidByDate_def Let_def assms [symmetric])
  from found show "calculateInterestPaidByDate D inp target s = cumulativeInterest (t ! k)"
    by (simp add: calculateInterestPaidByDate_def Let_def assms [symmetric])
  from found show "calculateRemainingBalance D inp target s = endingBalance (t ! k)"
    by (simp add: calculateRemainingBalance_def Let_def assms [symmetric])
next
  assume "\<forall>e\<in>set t. paymentDate e \<noteq> d"
  then have none: "find (\<lambda>entry. paymentDate entry = d) t = None"
    by (intro find_no_match) simp
  from none show "calculatePrincipalPaidByDate D inp target s = Fin 0"
    by (simp add: calculatePrincipalPaidByDate_def Let_def assms [symmetric])
  from none show "calculateInterestPaidByDate D inp target s = Fin 0"
    by (simp add: calculateInterestPaidByDate_def Let_def assms [symmetric])
  from none show "calculateRemainingBalance D inp target s = Fin (loanAmount inp)"
    by (simp add: calculateRemainingBalance_def Let_def assms [symmetric])
qed

text \<open>The definitions to unfold when a date of the UTC calendar is printed.\<close>

lemmas eval_dates = utcDates_def utcAddMonths_def utcIsoDate_def daysInMonth_def
  isLeapYear_def padZero_def showNat.simps digitChar_def sampleStart_def

lemma sample_payment_dates:
  "map paymentDate (generateAmortizationTable utcDates sampleInputs sampleStart) =
     [''2024-02-15'', ''2024-03-15'', ''2024-04-15'', ''2024-05-15'', ''2024-06-15'',
      ''2024-07-15'', ''2024-08-15'', ''2024-09-15'', ''2024-10-15'', ''2024-11-15'',
      ''2024-12-15'', ''2025-01-15'']"
  by (simp add: sampleInputs_def eval_table eval_dates)

lemma sample_second_entry:
  "cumulativePrincipal (generateAmortizationTable utcDates sampleInputs sampleStart ! 1) = Fin 200 \<and>
   cumulativeInterest (generateAmortizationTable utcDates sampleInputs sampleStart ! 1) = Fin 0 \<and>
   endingBalance (generateAmortizationTable utcDates sampleInputs sampleStart ! 1) = Fin 1000"
  by (simp add: sampleInputs_def eval_table)

text \<open>
  The second payment of the example falls on 2024-03-15: by then 200 of principal and no
  interest are paid and 1000 remain. No payment falls on 2024-03-16.
\<close>

theorem lookups_by_date_witness:
  "calculatePrincipalPaidByDate utcDates sampleInputs (2024, 3, 15) sampleStart = Fin 200 \<and>
   calculateInterestPaidByDate utcDates sampleInputs (2024, 3, 15) sampleStart = Fin 0 \<and>
   calculateRemainingBalance utcDates sampleInputs (2024, 3, 15) sampleStart = Fin 1000 \<and>
   calculatePrincipalPaidByDate utcDates sampleInputs (2024, 3, 16) sampleStart = Fin 0 \<and>
   calculateInterestPaidByDate utcDates sampleInputs (2024, 3, 16) sampleStart = Fin 0 \<and>
   calculateRemainingBalance utcDates sampleInputs (2024, 3, 16) sampleStart = Fin 1200"
proof -
  let ?t = "generateAmortizationTable utcDates sampleInputs sampleStart"
  have len: "length ?t = 12"
    using arg_cong [OF sample_payment_dates, of length] by simp
  have iso15: "isoDate utcDates (2024, 3, 15) = ''2024-03-15''"
    and iso16: "isoDate utcDates (2024, 3, 16) = ''2024-03-16''"
    by (simp_all add: eval_dates)
  have d0: "paymentDate (?t ! 0) = ''2024-02-15''"
    using arg_cong [OF sample_payment_dates, of "\<lambda>ds. ds ! 0"] len by simp
  have d1: "paymentDate (?t ! 1) = ''2024-03-15''"
    using arg_cong [OF sample_payment_dates, of "\<lambda>ds. ds ! 1"] len by simp
  have hit: "1 < length ?t \<and> paymentDate (?t ! 1) = isoDate utcDates (2024, 3, 15) \<and>
      (\<forall>j<1. paymentDate (?t ! j) \<noteq> isoDate utcDates (2024, 3, 15))"
    using len d0 d1 by (simp add: iso15)
  have "isoDate utcDates (2024, 3, 16) \<notin> set (map paymentDate ?t)"
    unfolding sample_payment_dates iso16 by simp
  then have miss: "\<forall>e\<in>set ?t. paymentDate e \<noteq> isoDate utcDates (2024, 3, 16)"
    by (metis image_eqI set_map)
  have amount: "loanAmount sampleInputs = 1200" by (simp add: sampleInputs_def)
  from lookups_by_date [OF refl refl, of utcDates sampleInputs sampleStart "(2024, 3, 15)"] hit
  have "calculatePrincipalPaidByDate utcDates sampleInputs (2024, 3, 15) sampleStart =
          cumulativePrincipal (?t ! 1) \<and>
        calculateInterestPaidByDate utcDates sampleInputs (2024, 3, 15) sampleStart =
          cumulativeInterest (?t ! 1) \<and>
        calculateRemainingBalance utcDates sampleInputs (2024, 3, 15) sampleStart =
          endingBalance (?t ! 1)"
    by blast
  moreover
  from lookups_by_date [OF refl refl, of utcDates sampleInputs sampleStart "(2024, 3, 16)"] miss
  have "calculatePrincipalPaidByDate utcDates sampleInputs (2024, 3, 16) sampleStart = Fin 0 \<and>
        calculateInterestPaidByDate utcDates sampleInputs (2024, 3, 16) sampleStart = Fin 0 \<and>
        calculateRemainingBalance utcDates sampleInputs (2024, 3, 16) sampleStart =
          Fin (loanAmount sampleInputs)"
    by blast
  ultimately show ?thesis
    using sample_second_entry by (simp add: amount)
qed

section \<open>Saved scenarios: saving, loading, updating\<close>







section \<open>The model at known values\<close>

text \<open>
  A loan of 1000 at 12 percent over one year costs 88.85 a month, the textbook value of the
  annuity formula.
\<close>

lemma payment_example:
  "calculateMonthlyPayment (Fin 1000) (Fin 12) (Fin 1) =
     Fin (11268250301319697206612010 / 126825030131969720661201) \<and>
   (88.84 :: real) \<le> 11268250301319697206612010 / 126825030131969720661201 \<and>
   (11268250301319697206612010 / 126825030131969720661201 :: real) \<le> 88.85"
  by (simp add: calculateMonthlyPayment_def Let_def js_sub_def realPow_def power_divide)

text \<open>
  The two input sets that the specification lists for \<open>validateInputs\<close>: the good one
  passes; a rate of 55, a term of 0 and a down payment above the purchase price are
  reported, in the order of the checks.
\<close>

lemma validateInputs_good_example:
  "validateInputs
      \<lparr> loanAmount = 300000, interestRate = 6.5, loanTermYears = 30,
        propertyTaxAnnual = 3600, homeInsuranceAnnual = 1200, pmiRate = Some 0.5,
        hoaFees = Some 100, downPayment = 60000, closingCosts = Some 5000 \<rparr> = []"
  by (simp add: validateInputs_def pushIf_def optOutside_def optNegative_def)

lemma validateInputs_bad_example:
  "validateInputs
      \<lparr> loanAmount = - 1, interestRate = 55, loanTermYears = 0,
        propertyTaxAnnual = 3600, homeInsuranceAnnual = 1200, pmiRate = Some 0.5,
        hoaFees = Some 100, downPayment = 60000, closingCosts = Some 5000 \<rparr> =
     [''Interest rate must be between 0% and 50%'',
      ''Loan term must be between 1 and 50 years'',
      ''Down payment cannot be greater than purchase price'']"
  by (simp add: validateInputs_def pushIf_def optOutside_def optNegative_def)

end
